theory Spec2Isabelle
  imports Main
begin

section \<open>Python values, errors and string helpers\<close>

text \<open>
  The objects that reach \<open>Table\<close> from its callers and from the database driver.
  The source is Python 2: a \<open>str\<close> has no \<open>__iter__\<close> attribute there, a
  list, a tuple and a dict have one, and only a dict has \<open>keys\<close>.
  Dictionary keys are taken to be strings.
\<close>

datatype pyval =
    PNone
  | PInt int
  | PStr string
  | PList "pyval list"
  | PTuple "pyval list"
  | PDict "(string \<times> pyval) list"
  | PSlice pyval pyval pyval

datatype error =
    ValueError string
  | TypeError string
  | IndexError string
  | StorageError string
  | OverflowError string

fun has_iter :: "pyval \<Rightarrow> bool" where
  "has_iter (PList xs) = True"
| "has_iter (PTuple xs) = True"
| "has_iter (PDict kvs) = True"
| "has_iter v = False"

fun has_keys :: "pyval \<Rightarrow> bool" where
  "has_keys (PDict kvs) = True"
| "has_keys v = False"

fun is_str :: "pyval \<Rightarrow> bool" where
  "is_str (PStr s) = True"
| "is_str v = False"

fun is_int :: "pyval \<Rightarrow> bool" where
  "is_int (PInt i) = True"
| "is_int v = False"

text \<open>The elements a \<open>for\<close> loop, \<open>list(...)\<close> or \<open>all(...)\<close> draws from an object;
  \<open>None\<close> when the object is not iterable (Python raises \<open>TypeError\<close>).\<close>

fun py_iter :: "pyval \<Rightarrow> pyval list option" where
  "py_iter (PList xs) = Some xs"
| "py_iter (PTuple xs) = Some xs"
| "py_iter (PDict kvs) = Some (map (\<lambda>kv. PStr (fst kv)) kvs)"
| "py_iter (PStr s) = Some (map (\<lambda>c. PStr [c]) s)"
| "py_iter v = None"

fun py_truth :: "pyval \<Rightarrow> bool" where
  "py_truth PNone = False"
| "py_truth (PInt i) = (i \<noteq> 0)"
| "py_truth (PStr s) = (s \<noteq> [])"
| "py_truth (PList xs) = (xs \<noteq> [])"
| "py_truth (PTuple xs) = (xs \<noteq> [])"
| "py_truth (PDict kvs) = (kvs \<noteq> [])"
| "py_truth (PSlice a b c) = True"

fun join :: "string \<Rightarrow> string list \<Rightarrow> string" where
  "join sep [] = []"
| "join sep [x] = x"
| "join sep (x # y # ys) = x @ sep @ join sep (y # ys)"

definition digit :: "nat \<Rightarrow> char" where
  "digit d = ''0123456789'' ! (d mod 10)"

fun nat_digits :: "nat \<Rightarrow> string" where
  "nat_digits n = (if n < 10 then [digit n] else nat_digits (n div 10) @ [digit (n mod 10)])"

declare nat_digits.simps [simp del]

definition show_int :: "int \<Rightarrow> string" where
  "show_int i = (if i < 0 then CHR ''-'' # nat_digits (nat (- i)) else nat_digits (nat i))"

definition quote :: "string \<Rightarrow> string" where
  "quote s = CHR 0x27 # s @ [CHR 0x27]"

text \<open>\<open>repr\<close> and \<open>str\<close> of a value (escape sequences inside a quoted string are not
  rendered).\<close>

fun py_repr :: "pyval \<Rightarrow> string" where
  "py_repr PNone = ''None''"
| "py_repr (PInt i) = show_int i"
| "py_repr (PStr s) = quote s"
| "py_repr (PList xs) = ''['' @ join '', '' (map py_repr xs) @ '']''"
| "py_repr (PTuple xs) =
     (case xs of [x] \<Rightarrow> ''('' @ py_repr x @ '',)''
      | _ \<Rightarrow> ''('' @ join '', '' (map py_repr xs) @ '')'')"
| "py_repr (PDict kvs) =
     ''{'' @ join '', '' (map (\<lambda>kv. quote (fst kv) @ '': '' @ py_repr (snd kv)) kvs) @ ''}''"
| "py_repr (PSlice a b c) =
     ''slice('' @ py_repr a @ '', '' @ py_repr b @ '', '' @ py_repr c @ '')''"

definition py_str :: "pyval \<Rightarrow> string" where
  "py_str v = (case v of PStr s \<Rightarrow> s | _ \<Rightarrow> py_repr v)"

text \<open>\<open>fmt % arg\<close> for a format with \<open>%s\<close> and \<open>%d\<close> conversions: a tuple argument
  is the argument list, any other object is the single argument.\<close>

fun fmt_go :: "string \<Rightarrow> pyval list \<Rightarrow> error + string" where
  "fmt_go [] [] = Inr []"
| "fmt_go [] (a # as) = Inl (TypeError ''not all arguments converted during string formatting'')"
| "fmt_go [c] as =
     (if c = CHR ''%'' then Inl (ValueError ''incomplete format'')
      else (case fmt_go [] as of Inl e \<Rightarrow> Inl e | Inr r \<Rightarrow> Inr (c # r)))"
| "fmt_go (c # d # ds) as =
     (if c = CHR ''%'' then
        (if d = CHR ''s'' \<or> d = CHR ''d'' then
           (case as of
              [] \<Rightarrow> Inl (TypeError ''not enough arguments for format string'')
            | a # as' \<Rightarrow>
               (if d = CHR ''d'' \<and> (case a of PInt i \<Rightarrow> False | _ \<Rightarrow> True)
                then Inl (TypeError ''%d format: a number is required'')
                else (case fmt_go ds as' of Inl e \<Rightarrow> Inl e | Inr r \<Rightarrow> Inr (py_str a @ r))))
         else Inl (ValueError ''unsupported format character''))
      else (case fmt_go (d # ds) as of Inl e \<Rightarrow> Inl e | Inr r \<Rightarrow> Inr (c # r)))"

definition py_format :: "string \<Rightarrow> pyval \<Rightarrow> error + string" where
  "py_format f arg = fmt_go f (case arg of PTuple xs \<Rightarrow> xs | _ \<Rightarrow> [arg])"

text \<open>\<open>sep.join(items)\<close>: every item must be a \<open>str\<close>.\<close>

definition str_join :: "string \<Rightarrow> pyval list \<Rightarrow> error + string" where
  "str_join sep items =
     (if list_all is_str items then Inr (join sep (map py_str items))
      else Inl (TypeError ''sequence item: expected string''))"

fun index_of :: "'a list \<Rightarrow> 'a \<Rightarrow> nat option" where
  "index_of [] x = None"
| "index_of (y # ys) x = (if y = x then Some 0 else map_option Suc (index_of ys x))"

definition insert_at :: "nat \<Rightarrow> 'a \<Rightarrow> 'a list \<Rightarrow> 'a list" where
  "insert_at i x xs = take i xs @ x # drop i xs"

section \<open>The numpy view of the reflected rows\<close>

text \<open>
  \<open>np.array(rows)\<close> is two-dimensional when there is at least one row and all rows have
  the same width; otherwise it has one axis and \<open>meta[:, i]\<close> raises \<open>IndexError\<close>.
  numpy gives all cells one element type. When every cell is an \<open>int\<close> or a \<open>str\<close>
  and at least one is a \<open>str\<close>, the array is an array of strings and every \<open>int\<close>
  becomes its decimal text. When some cell is \<open>None\<close> (as the default of a column
  without \<open>DEFAULT\<close> clause is) the array holds the Python objects unchanged. The
  driver reports scalars only. \<open>np.nonzero\<close> tests an object by its Python truth value
  and an element of a string array by whether it has a character other than white
  space.
\<close>

definition np_2d :: "pyval list list \<Rightarrow> bool" where
  "np_2d rows = (rows \<noteq> [] \<and> list_all (\<lambda>r. length r = length (hd rows)) rows)"

definition np_is_string :: "pyval list list \<Rightarrow> bool" where
  "np_is_string rows =
     (list_all (list_all (\<lambda>v. is_int v \<or> is_str v)) rows \<and> list_ex (list_ex is_str) rows)"

fun np_to_str :: "pyval \<Rightarrow> pyval" where
  "np_to_str (PInt i) = PStr (show_int i)"
| "np_to_str v = v"

definition np_array :: "pyval list list \<Rightarrow> pyval list list" where
  "np_array rows = (if np_is_string rows then map (map np_to_str) rows else rows)"

definition np_col :: "nat \<Rightarrow> pyval list list \<Rightarrow> error + pyval list" where
  "np_col i rows =
     (if \<not> np_2d rows then Inl (IndexError ''too many indices for array'')
      else if length (hd rows) \<le> i then Inl (IndexError ''index out of bounds'')
      else Inr (map (\<lambda>r. r ! i) rows))"

definition is_space :: "char \<Rightarrow> bool" where
  "is_space c = (c \<in> set [CHR '' '', CHR 0x09, CHR 0x0A, CHR 0x0B, CHR 0x0C, CHR 0x0D])"

definition np_truth :: "bool \<Rightarrow> pyval \<Rightarrow> bool" where
  "np_truth strings v =
     (if strings then (case v of PStr s \<Rightarrow> list_ex (\<lambda>c. \<not> is_space c) s | _ \<Rightarrow> py_truth v)
      else py_truth v)"

definition np_nonzero :: "bool \<Rightarrow> pyval list \<Rightarrow> nat list" where
  "np_nonzero strings xs = filter (\<lambda>i. np_truth strings (xs ! i)) [0 ..< length xs]"

definition np_str :: "nat list \<Rightarrow> string" where
  "np_str ix = ''['' @ join '' '' (map nat_digits ix) @ '']''"

section \<open>The database driver\<close>

text \<open>
  The driver (\<open>sqlite3\<close>) is a parameter: \<open>drv db sql params s\<close> executes one statement
  on the database file \<open>db\<close> in store state \<open>s\<close> and answers either an error or the rows
  \<open>fetchall\<close> would return, with the new store state. The driver raises its own
  database errors (\<open>sqlite3.Error\<close>, the storage errors) and \<open>OverflowError\<close> when an
  integer parameter does not fit the store's integers. Every call of the source to the
  driver is recorded in a log; \<open>Close\<close> is the driver's \<open>close()\<close>, which the source
  never calls. \<open>with conn:\<close> commits when its body ends and rolls back when the body
  raises. Opening the connection is taken to succeed.
\<close>

datatype event = Connect string | Execute string pyval | Commit | Rollback | Close

datatype drv_error = DbError string | Overflow string

fun raised :: "drv_error \<Rightarrow> error" where
  "raised (DbError m) = StorageError m"
| "raised (Overflow m) = OverflowError m"

record 's world =
  store :: 's
  log :: "event list"

type_synonym 's driver =
  "string \<Rightarrow> string \<Rightarrow> pyval \<Rightarrow> 's \<Rightarrow> (drv_error + pyval list list) \<times> 's"

fun run_stmts :: "'s driver \<Rightarrow> string \<Rightarrow> (string \<times> pyval) list \<Rightarrow> 's \<Rightarrow> event list
    \<Rightarrow> pyval list list \<Rightarrow> (error + pyval list list) \<times> 's \<times> event list" where
  "run_stmts drv d [] s evs res = (Inr res, s, evs)"
| "run_stmts drv d (qa # rest) s evs res =
     (case drv d (fst qa) (snd qa) s of
        (Inl m, s') \<Rightarrow> (Inl (raised m), s', evs @ [Execute (fst qa) (snd qa)])
      | (Inr rows, s') \<Rightarrow> run_stmts drv d rest s' (evs @ [Execute (fst qa) (snd qa)]) rows)"

definition with_conn :: "'s driver \<Rightarrow> string \<Rightarrow> (string \<times> pyval) list \<Rightarrow> 's world
    \<Rightarrow> (error + pyval list list) \<times> 's world" where
  "with_conn drv d stmts w =
     (case run_stmts drv d stmts (store w) (log w @ [Connect d]) [] of
        (Inl e, s', evs) \<Rightarrow> (Inl e, \<lparr>store = store w, log = evs @ [Rollback]\<rparr>)
      | (Inr rows, s', evs) \<Rightarrow> (Inr rows, \<lparr>store = s', log = evs @ [Commit]\<rparr>))"

section \<open>Table.__init__\<close>

record table =
  t_db :: string
  t_name :: string
  t_meta :: "pyval list list"
  t_columns :: "pyval list"
  t_pk :: pyval
  t_repr :: string

definition pragma_sql :: "string \<Rightarrow> string" where
  "pragma_sql n = ''PRAGMA table_info('' @ quote n @ '')''"

definition pk_suffix :: string where
  "pk_suffix = '' PRIMARY KEY AUTOINCREMENT''"

text \<open>Lines 19 to 35: everything \<open>__init__\<close> does with the fetched rows.\<close>

definition init_meta :: "string \<Rightarrow> string \<Rightarrow> pyval list list \<Rightarrow> error + table" where
  "init_meta d n rows =
     (let meta = np_array rows in
      case np_col 1 meta of
        Inl e \<Rightarrow> Inl e
      | Inr cols \<Rightarrow>
        (case np_col 5 meta of
           Inl e \<Rightarrow> Inl e
         | Inr flags \<Rightarrow>
           (let ix = np_nonzero (np_is_string rows) flags in
            if length ix > 1 then Inl (ValueError (''more than one primary key: '' @ np_str ix))
            else
              (let p = (if length ix = 1 then cols ! (ix ! 0) else PNone);
                   args = map (\<lambda>m. py_str (m ! 1) @ '' '' @ py_str (m ! 2)) meta
               in if p \<noteq> PNone then
                    (case index_of cols p of
                       None \<Rightarrow> Inl (ValueError ''tuple.index(x): x not in tuple'')
                     | Some i \<Rightarrow>
                         Inr \<lparr>t_db = d, t_name = n, t_meta = meta, t_columns = cols, t_pk = p,
                              t_repr = n @ ''('' @ join '', '' (args[i := args ! i @ pk_suffix]) @ '')''\<rparr>)
                  else Inr \<lparr>t_db = d, t_name = n, t_meta = meta, t_columns = cols, t_pk = p,
                            t_repr = n @ ''('' @ join '', '' args @ '')''\<rparr>))))"

definition construct :: "'s driver \<Rightarrow> string \<Rightarrow> string \<Rightarrow> 's world \<Rightarrow> (error + table) \<times> 's world" where
  "construct drv d n w =
     (case with_conn drv d [(pragma_sql n, PTuple [])] w of
        (Inl e, w') \<Rightarrow> (Inl e, w')
      | (Inr rows, w') \<Rightarrow> (init_meta d n rows, w'))"

section \<open>Table.create and Table.drop\<close>







definition drop :: "'s driver \<Rightarrow> table \<Rightarrow> 's world \<Rightarrow> (error + unit) \<times> 's world" where
  "drop drv t w =
     (case with_conn drv (t_db t) [(''DROP TABLE '' @ t_name t, PTuple [])] w of
        (Inl e, w') \<Rightarrow> (Inl e, w')
      | (Inr rows, w') \<Rightarrow> (Inr (), w'))"

section \<open>Table.insert\<close>

text \<open>Lines 88 to 93: the list of rows the argument stands for. \<open>values[0]\<close> raises
  \<open>IndexError\<close> on an empty list or tuple.\<close>

definition normalize_values :: "pyval \<Rightarrow> error + pyval list" where
  "normalize_values values0 =
     (let values = (if values0 = PNone then PDict [] else values0) in
      if has_keys values \<or> \<not> has_iter values then Inr [values]
      else (case py_iter values of
              None \<Rightarrow> Inr [values]
            | Some [] \<Rightarrow> Inl (IndexError ''index out of range'')
            | Some (x # xs) \<Rightarrow> if \<not> has_iter x then Inr [values] else Inr (x # xs)))"

text \<open>Lines 97 to 100.\<close>

definition insert_cols :: "table \<Rightarrow> error + pyval list" where
  "insert_cols t =
     (if t_pk t \<noteq> PNone then
        (if t_pk t \<in> set (t_columns t) then Inr (remove1 (t_pk t) (t_columns t))
         else Inl (ValueError ''list.remove(x): x not in list''))
      else Inr (t_columns t))"

definition dict_get :: "(string \<times> pyval) list \<Rightarrow> pyval \<Rightarrow> pyval" where
  "dict_get kvs key =
     (case key of
        PStr k \<Rightarrow> (case map_of kvs k of Some v \<Rightarrow> v | None \<Rightarrow> PNone)
      | _ \<Rightarrow> PNone)"

fun py_len :: "pyval \<Rightarrow> nat" where
  "py_len (PList xs) = length xs"
| "py_len (PTuple xs) = length xs"
| "py_len (PDict kvs) = length kvs"
| "py_len (PStr s) = length s"
| "py_len v = 0"

fun py_type_str :: "pyval \<Rightarrow> string" where
  "py_type_str PNone = ''<type '' @ quote ''NoneType'' @ ''>''"
| "py_type_str (PInt i) = ''<type '' @ quote ''int'' @ ''>''"
| "py_type_str (PStr s) = ''<type '' @ quote ''str'' @ ''>''"
| "py_type_str (PList xs) = ''<type '' @ quote ''list'' @ ''>''"
| "py_type_str (PTuple xs) = ''<type '' @ quote ''tuple'' @ ''>''"
| "py_type_str (PDict kvs) = ''<type '' @ quote ''dict'' @ ''>''"
| "py_type_str (PSlice a b c) = ''<type '' @ quote ''slice'' @ ''>''"

text \<open>The body of the loop of lines 104 to 115 for one element. Line 111 binds the
  whole positional row as one list element.\<close>

definition row_entry :: "pyval list \<Rightarrow> pyval \<Rightarrow> error + pyval list" where
  "row_entry cols vals =
     (case vals of
        PDict kvs \<Rightarrow> Inr (map (dict_get kvs) cols)
      | _ \<Rightarrow>
         (if has_iter vals then
            (if py_len vals \<noteq> length cols
             then Inl (ValueError (''expected '' @ nat_digits (length cols) @ '' values, got ''
                                   @ nat_digits (py_len vals)))
             else Inr [vals])
          else Inl (ValueError (''expected dict or list/tuple, got: '' @ py_type_str vals))))"

fun collect_entries :: "pyval list \<Rightarrow> pyval list \<Rightarrow> error + pyval list list" where
  "collect_entries cols [] = Inr []"
| "collect_entries cols (vals # rest) =
     (case row_entry cols vals of
        Inl e \<Rightarrow> Inl e
      | Inr entry \<Rightarrow>
         (case collect_entries cols rest of
            Inl e \<Rightarrow> Inl e
          | Inr entries \<Rightarrow> Inr (entry # entries)))"

text \<open>Lines 118 to 121: the placeholder list.\<close>

definition insert_qm :: "table \<Rightarrow> nat \<Rightarrow> error + string" where
  "insert_qm t ncol =
     (if t_pk t \<noteq> PNone then
        (case index_of (t_columns t) (t_pk t) of
           None \<Rightarrow> Inl (ValueError ''tuple.index(x): x not in tuple'')
         | Some i \<Rightarrow> Inr (join '', '' (insert_at i ''NULL'' (replicate ncol ''?''))))
      else Inr (join '', '' (replicate ncol ''?'')))"

definition insert_sql :: "string \<Rightarrow> string \<Rightarrow> string" where
  "insert_sql n qm = ''INSERT INTO '' @ n @ '' VALUES ('' @ qm @ '')''"

text \<open>Everything \<open>insert\<close> does before it connects: the statement and the parameter
  list of each execution.\<close>

definition insert_plan :: "table \<Rightarrow> pyval \<Rightarrow> error + (string \<times> pyval) list" where
  "insert_plan t values0 =
     (case normalize_values values0 of
        Inl e \<Rightarrow> Inl e
      | Inr values \<Rightarrow>
         (case insert_cols t of
            Inl e \<Rightarrow> Inl e
          | Inr cols \<Rightarrow>
             (case collect_entries cols values of
                Inl e \<Rightarrow> Inl e
              | Inr entries \<Rightarrow>
                 (case insert_qm t (length cols) of
                    Inl e \<Rightarrow> Inl e
                  | Inr qm \<Rightarrow> Inr (map (\<lambda>entry. (insert_sql (t_name t) qm, PList entry)) entries)))))"

definition insert :: "'s driver \<Rightarrow> table \<Rightarrow> pyval \<Rightarrow> 's world \<Rightarrow> (error + unit) \<times> 's world" where
  "insert drv t values0 w =
     (case insert_plan t values0 of
        Inl e \<Rightarrow> (Inl e, w)
      | Inr stmts \<Rightarrow>
         (case with_conn drv (t_db t) stmts w of
            (Inl e, w') \<Rightarrow> (Inl e, w')
          | (Inr rows, w') \<Rightarrow> (Inr (), w')))"

section \<open>Table.select and Table.__getitem__\<close>

text \<open>The \<open>DataFrame\<close> is kept as the three arguments \<open>from_records\<close> receives.\<close>

record frame =
  f_rows :: "pyval list list"
  f_columns :: "pyval list"
  f_index :: pyval

text \<open>Lines 133 to 144.\<close>

definition select_cols :: "table \<Rightarrow> pyval \<Rightarrow> pyval list" where
  "select_cols t cols0 =
     (let cols = (if cols0 = PNone then t_columns t
                  else if \<not> has_iter cols0 then [cols0]
                  else (case py_iter cols0 of Some xs \<Rightarrow> xs | None \<Rightarrow> []))
      in if t_pk t \<notin> set cols then t_pk t # cols else cols)"

text \<open>Lines 148 to 157: the arguments of \<open>cur.execute\<close>.\<close>

definition select_stmt :: "table \<Rightarrow> string \<Rightarrow> (string \<times> pyval) option \<Rightarrow> string \<times> pyval" where
  "select_stmt t sel wh =
     (let query = ''SELECT '' @ sel @ '' FROM '' @ t_name t in
      case wh of
        None \<Rightarrow> (query, PTuple [])
      | Some (where_str, where_args) \<Rightarrow>
          (query @ '' WHERE '' @ where_str,
           if \<not> has_iter where_args then PTuple [where_args] else where_args))"

definition select :: "'s driver \<Rightarrow> table \<Rightarrow> pyval \<Rightarrow> (string \<times> pyval) option \<Rightarrow> 's world
    \<Rightarrow> (error + frame) \<times> 's world" where
  "select drv t cols0 wh w =
     (let cols = select_cols t cols0 in
      case str_join '','' cols of
        Inl e \<Rightarrow> (Inl e, w)
      | Inr sel \<Rightarrow>
         (case with_conn drv (t_db t) [select_stmt t sel wh] w of
            (Inl e, w') \<Rightarrow> (Inl e, w')
          | (Inr rows, w') \<Rightarrow>
              (Inr \<lparr>f_rows = rows, f_columns = cols,
                    f_index = (if t_pk t \<in> set cols then t_pk t else PNone)\<rparr>, w')))"

text \<open>Lines 190 to 198: the filter of a slice.\<close>

definition slice_where :: "pyval \<Rightarrow> pyval \<Rightarrow> pyval \<Rightarrow> error + (string \<times> pyval) option" where
  "slice_where p start stop =
     (if start = PNone \<and> stop = PNone then Inr None
      else if start = PNone then
        (case py_format ''%s<?'' p of Inl e \<Rightarrow> Inl e | Inr s \<Rightarrow> Inr (Some (s, stop)))
      else if stop = PNone then
        (case py_format ''%s>=?'' p of Inl e \<Rightarrow> Inl e | Inr s \<Rightarrow> Inr (Some (s, start)))
      else
        (case py_format ''%s<? AND %s>=?'' (PTuple [p, p]) of
           Inl e \<Rightarrow> Inl e
         | Inr s \<Rightarrow> Inr (Some (s, PTuple [stop, start]))))"

definition getitem :: "'s driver \<Rightarrow> table \<Rightarrow> pyval \<Rightarrow> 's world \<Rightarrow> (error + frame) \<times> 's world" where
  "getitem drv t key w =
     (case key of
        PInt i \<Rightarrow>
          (if t_pk t = PNone then (Inl (ValueError ''no primary key column''), w)
           else (case py_format ''%s=?'' (t_pk t) of
                   Inl e \<Rightarrow> (Inl e, w)
                 | Inr s \<Rightarrow> select drv t PNone (Some (s, key)) w))
      | PSlice start stop step \<Rightarrow>
          (if t_pk t = PNone then (Inl (ValueError ''no primary key column''), w)
           else if \<not> (step = PNone \<or> step = PInt 1)
           then (Inl (ValueError ''cannot handle step size > 1''), w)
           else (case slice_where (t_pk t) start stop of
                   Inl e \<Rightarrow> (Inl e, w)
                 | Inr wh \<Rightarrow> select drv t PNone wh w))
      | PStr s \<Rightarrow> select drv t key None w
      | _ \<Rightarrow>
          (case py_iter key of
             None \<Rightarrow> (Inl (TypeError (py_type_str key @ '' object is not iterable'')), w)
           | Some ks \<Rightarrow>
               (if list_all is_str ks then select drv t key None w
                else (case py_format ''invalid key: %s'' key of
                        Inl e \<Rightarrow> (Inl e, w)
                      | Inr m \<Rightarrow> (Inl (ValueError m), w)))))"

section \<open>A reference store\<close>

text \<open>
  A small in-memory stand-in for the embedded SQL engine, used to run the operations on
  concrete tables. It covers a fragment of what sqlite does, and inside the fragment it
  answers as sqlite does:
  \<^item> statements of the shapes \<open>Table\<close> builds: \<open>PRAGMA table_info\<close>, \<open>CREATE TABLE\<close>,
    \<open>DROP TABLE\<close>, \<open>INSERT ... VALUES\<close> with \<open>NULL\<close> and \<open>?\<close> items, and
    \<open>SELECT ... FROM ... WHERE\<close> with a conjunction of \<open>col<?\<close>, \<open>col>=?\<close> and \<open>col=?\<close>;
  \<^item> table and column names are pasted into the statements unquoted: a name that is a
    reserved word is a syntax error, names are compared without regard to case;
  \<^item> the number of bound parameters must equal the number of \<open>?\<close> placeholders, every
    bound parameter must be a scalar, and an integer outside the signed 64-bit range
    raises \<open>OverflowError\<close>;
  \<^item> values are integers, text and \<open>NULL\<close>; integers are stored in \<open>INTEGER\<close> columns and
    text in \<open>TEXT\<close> columns; a filter compares integers of \<open>INTEGER\<close> columns with
    integer parameters, and a comparison with \<open>NULL\<close> is never true.

  Everything else (other statement shapes, names that are not plain identifiers or are
  other keywords of SQL, conversions between text and numbers, comparisons of text) is
  outside the fragment: the store answers \<open>unmodelled\<close> there, which stands for an
  answer this development does not determine.

  A table is its column descriptors and its rows; tables are keyed by database file and
  table name.
\<close>

record sq_col =
  c_name :: string
  c_type :: string
  c_pk :: bool
  c_default :: "string option"

type_synonym sq_table = "sq_col list \<times> pyval list list"
type_synonym sq_store = "((string \<times> string) \<times> sq_table) list"

definition unmodelled :: drv_error where
  "unmodelled = DbError ''outside the modelled fragment''"

fun strip_prefix :: "string \<Rightarrow> string \<Rightarrow> string option" where
  "strip_prefix [] s = Some s"
| "strip_prefix (p # ps) [] = None"
| "strip_prefix (p # ps) (c # cs) = (if p = c then strip_prefix ps cs else None)"

definition strip_suffix :: "string \<Rightarrow> string \<Rightarrow> string option" where
  "strip_suffix p s = map_option rev (strip_prefix (rev p) (rev s))"

fun split_on :: "char \<Rightarrow> string \<Rightarrow> string list" where
  "split_on c [] = [[]]"
| "split_on c (x # xs) =
     (if x = c then [] # split_on c xs
      else (case split_on c xs of [] \<Rightarrow> [[x]] | w # ws \<Rightarrow> (x # w) # ws))"

subsection \<open>Names\<close>

definition upper :: "string \<Rightarrow> string" where
  "upper s =
     map (\<lambda>c. case map_of (zip ''abcdefghijklmnopqrstuvwxyz'' ''ABCDEFGHIJKLMNOPQRSTUVWXYZ'') c of
                 Some u \<Rightarrow> u | None \<Rightarrow> c) s"

text \<open>Words that sqlite never accepts as an unquoted name.\<close>

definition reserved_words :: "string list" where
  "reserved_words =
     [''ORDER'', ''GROUP'', ''SELECT'', ''FROM'', ''WHERE'', ''TABLE'', ''VALUES'', ''INSERT'',
      ''CREATE'', ''DROP'', ''AND'', ''OR'', ''NOT'', ''INTO'', ''SET'', ''UPDATE'', ''DELETE'',
      ''LIMIT'', ''HAVING'']"

text \<open>The other keywords and special names of sqlite; what a statement with one of
  them as a name means is outside the fragment.\<close>

definition other_keywords :: "string list" where
  "other_keywords =
     [''ABORT'', ''ACTION'', ''ADD'', ''AFTER'', ''ALL'', ''ALTER'', ''ALWAYS'', ''ANALYZE'', ''AS'',
      ''ASC'', ''ATTACH'', ''AUTOINCREMENT'', ''BEFORE'', ''BEGIN'', ''BETWEEN'', ''BY'', ''CASCADE'',
      ''CASE'', ''CAST'', ''CHECK'', ''COLLATE'', ''COLUMN'', ''COMMIT'', ''CONFLICT'', ''CONSTRAINT'',
      ''CROSS'', ''CURRENT'', ''CURRENT_DATE'', ''CURRENT_TIME'', ''CURRENT_TIMESTAMP'', ''DATABASE'',
      ''DEFAULT'', ''DEFERRABLE'', ''DEFERRED'', ''DESC'', ''DETACH'', ''DISTINCT'', ''DO'', ''EACH'',
      ''ELSE'', ''END'', ''ESCAPE'', ''EXCEPT'', ''EXCLUDE'', ''EXCLUSIVE'', ''EXISTS'', ''EXPLAIN'',
      ''FAIL'', ''FALSE'', ''FILTER'', ''FIRST'', ''FOLLOWING'', ''FOR'', ''FOREIGN'', ''FULL'',
      ''GENERATED'', ''GLOB'', ''GROUPS'', ''IF'', ''IGNORE'', ''IMMEDIATE'', ''IN'', ''INDEX'',
      ''INDEXED'', ''INITIALLY'', ''INNER'', ''INSTEAD'', ''INTERSECT'', ''IS'', ''ISNULL'', ''JOIN'',
      ''KEY'', ''LAST'', ''LEFT'', ''LIKE'', ''MATCH'', ''MATERIALIZED'', ''NATURAL'', ''NO'',
      ''NOTHING'', ''NOTNULL'', ''NULL'', ''NULLS'', ''OF'', ''OFFSET'', ''OID'', ''ON'', ''OTHERS'',
      ''OUTER'', ''OVER'', ''PARTITION'', ''PLAN'', ''PRAGMA'', ''PRECEDING'', ''PRIMARY'', ''QUERY'',
      ''RAISE'', ''RANGE'', ''RECURSIVE'', ''REFERENCES'', ''REGEXP'', ''REINDEX'', ''RELEASE'',
      ''RENAME'', ''REPLACE'', ''RESTRICT'', ''RETURNING'', ''RIGHT'', ''ROLLBACK'', ''ROW'', ''ROWID'',
      ''ROWS'', ''SAVEPOINT'', ''TEMP'', ''TEMPORARY'', ''THEN'', ''TIES'', ''TO'', ''TRANSACTION'',
      ''TRIGGER'', ''TRUE'', ''UNBOUNDED'', ''UNION'', ''UNIQUE'', ''USING'', ''VACUUM'', ''VIEW'',
      ''VIRTUAL'', ''WHEN'', ''WINDOW'', ''WITH'', ''WITHOUT'', ''_ROWID_'']"

definition plain_ident :: "string \<Rightarrow> bool" where
  "plain_ident n =
     (n \<noteq> []
      \<and> hd n \<in> set ''abcdefghijklmnopqrstuvwxyzABCDEFGHIJKLMNOPQRSTUVWXYZ_''
      \<and> list_all (\<lambda>c. c \<in> set ''abcdefghijklmnopqrstuvwxyzABCDEFGHIJKLMNOPQRSTUVWXYZ_0123456789'') n
      \<and> upper n \<notin> set other_keywords)"

text \<open>The names of a statement: \<open>None\<close> when all are plain, else the answer of the
  store.\<close>

definition check_names :: "string list \<Rightarrow> drv_error option" where
  "check_names ns =
     (if \<not> list_all (\<lambda>n. upper n \<in> set reserved_words \<or> plain_ident n) ns then Some unmodelled
      else if list_ex (\<lambda>n. upper n \<in> set reserved_words) ns then Some (DbError ''syntax error'')
      else None)"

definition find_table :: "sq_store \<Rightarrow> string \<Rightarrow> string \<Rightarrow> ((string \<times> string) \<times> sq_table) option" where
  "find_table s d n = find (\<lambda>e. fst (fst e) = d \<and> upper (snd (fst e)) = upper n) s"

definition col_pos :: "sq_col list \<Rightarrow> string \<Rightarrow> nat option" where
  "col_pos cds c = index_of (map (\<lambda>cd. upper (c_name cd)) cds) (upper c)"

definition well_formed :: "sq_table \<Rightarrow> bool" where
  "well_formed tb = list_all (\<lambda>row. length row = length (fst tb)) (snd tb)"

subsection \<open>Binding parameters\<close>

definition fits_int64 :: "int \<Rightarrow> bool" where
  "fits_int64 i = (- 9223372036854775808 \<le> i \<and> i \<le> 9223372036854775807)"

fun bind_all :: "pyval list \<Rightarrow> drv_error option" where
  "bind_all [] = None"
| "bind_all (PNone # ps) = bind_all ps"
| "bind_all (PStr s # ps) = bind_all ps"
| "bind_all (PInt i # ps) =
     (if fits_int64 i then bind_all ps
      else Some (Overflow ''Python int too large to convert to SQLite INTEGER''))"
| "bind_all (v # ps) = Some (DbError ''Error binding parameter - probably unsupported type'')"

text \<open>The parameters of \<open>execute\<close> for a statement with \<open>k\<close> placeholders.\<close>

definition bind_params :: "nat \<Rightarrow> pyval \<Rightarrow> drv_error + pyval list" where
  "bind_params k params =
     (case params of
        PList ps \<Rightarrow>
          (if length ps \<noteq> k then Inl (DbError ''Incorrect number of bindings supplied'')
           else (case bind_all ps of Some e \<Rightarrow> Inl e | None \<Rightarrow> Inr ps))
      | PTuple ps \<Rightarrow>
          (if length ps \<noteq> k then Inl (DbError ''Incorrect number of bindings supplied'')
           else (case bind_all ps of Some e \<Rightarrow> Inl e | None \<Rightarrow> Inr ps))
      | _ \<Rightarrow> Inl unmodelled)"

subsection \<open>SELECT\<close>

datatype cond = Lt string | Ge string | Eq string

definition parse_atom :: "string \<Rightarrow> cond option" where
  "parse_atom a =
     (case strip_suffix ''>=?'' a of
        Some c \<Rightarrow> Some (Ge c)
      | None \<Rightarrow>
         (case strip_suffix ''<?'' a of
            Some c \<Rightarrow> Some (Lt c)
          | None \<Rightarrow>
             (case strip_suffix ''=?'' a of
                Some c \<Rightarrow> Some (Eq c)
              | None \<Rightarrow> None)))"

fun parse_conds :: "string list \<Rightarrow> cond list option" where
  "parse_conds [] = None"
| "parse_conds [a] = map_option (\<lambda>c. [c]) (parse_atom a)"
| "parse_conds (a # x # rest) =
     (if x = ''AND'' then
        (case parse_atom a of
           None \<Rightarrow> None
         | Some c \<Rightarrow> map_option ((#) c) (parse_conds rest))
      else None)"

fun cond_col :: "cond \<Rightarrow> string" where
  "cond_col (Lt c) = c"
| "cond_col (Ge c) = c"
| "cond_col (Eq c) = c"

fun int_or_null :: "pyval \<Rightarrow> bool" where
  "int_or_null PNone = True"
| "int_or_null (PInt i) = True"
| "int_or_null v = False"

text \<open>Whether a filter stays inside the fragment: integer parameters, compared with
  \<open>INTEGER\<close> columns that hold integers.\<close>

definition comparable :: "sq_table \<Rightarrow> cond list \<Rightarrow> pyval list \<Rightarrow> bool" where
  "comparable tb conds ps =
     (list_all int_or_null ps
      \<and> list_all (\<lambda>c. case col_pos (fst tb) (cond_col c) of
                        None \<Rightarrow> False
                      | Some i \<Rightarrow> c_type (fst tb ! i) = ''INTEGER''
                                  \<and> list_all (\<lambda>row. int_or_null (row ! i)) (snd tb)) conds)"

fun sq_lt :: "pyval \<Rightarrow> pyval \<Rightarrow> bool" where
  "sq_lt (PInt a) (PInt b) = (a < b)"
| "sq_lt u v = False"

fun sq_ge :: "pyval \<Rightarrow> pyval \<Rightarrow> bool" where
  "sq_ge (PInt a) (PInt b) = (a \<ge> b)"
| "sq_ge u v = False"

fun sq_eq :: "pyval \<Rightarrow> pyval \<Rightarrow> bool" where
  "sq_eq (PInt a) (PInt b) = (a = b)"
| "sq_eq u v = False"

text \<open>One atom of the filter on one row, with its bound parameter.\<close>

fun eval_cond :: "sq_col list \<Rightarrow> pyval list \<Rightarrow> cond \<times> pyval \<Rightarrow> bool" where
  "eval_cond cds row (Lt c, v) =
     (case col_pos cds c of None \<Rightarrow> False | Some i \<Rightarrow> sq_lt (row ! i) v)"
| "eval_cond cds row (Ge c, v) =
     (case col_pos cds c of None \<Rightarrow> False | Some i \<Rightarrow> sq_ge (row ! i) v)"
| "eval_cond cds row (Eq c, v) =
     (case col_pos cds c of None \<Rightarrow> False | Some i \<Rightarrow> sq_eq (row ! i) v)"

definition project :: "sq_col list \<Rightarrow> string list \<Rightarrow> pyval list \<Rightarrow> pyval list" where
  "project cds sel row = map (\<lambda>c. case col_pos cds c of None \<Rightarrow> PNone | Some i \<Rightarrow> row ! i) sel"

definition run_select :: "sq_table \<Rightarrow> string list \<Rightarrow> cond list \<Rightarrow> pyval \<Rightarrow> drv_error + pyval list list" where
  "run_select tb sel conds params =
     (if \<not> well_formed tb then Inl unmodelled
      else if \<not> list_all (\<lambda>c. col_pos (fst tb) c \<noteq> None) (sel @ map cond_col conds)
      then Inl (DbError ''no such column'')
      else (case bind_params (length conds) params of
              Inl e \<Rightarrow> Inl e
            | Inr ps \<Rightarrow>
               (if \<not> comparable tb conds ps then Inl unmodelled
                else Inr (map (project (fst tb) sel)
                            (filter (\<lambda>row. list_all (eval_cond (fst tb) row) (zip conds ps))
                               (snd tb))))))"

definition sq_select :: "string \<Rightarrow> string \<Rightarrow> pyval \<Rightarrow> sq_store \<Rightarrow> drv_error + pyval list list" where
  "sq_select d q params s =
     (case split_on CHR '' '' q of
        kw # sel # frm # n # rest \<Rightarrow>
          (if kw \<noteq> ''SELECT'' \<or> frm \<noteq> ''FROM'' then Inl unmodelled
           else (case (if rest = [] then Some []
                       else if hd rest = ''WHERE'' then parse_conds (tl rest) else None) of
                   None \<Rightarrow> Inl unmodelled
                 | Some conds \<Rightarrow>
                    (case check_names (split_on CHR '','' sel @ [n] @ map cond_col conds) of
                       Some e \<Rightarrow> Inl e
                     | None \<Rightarrow>
                        (case find_table s d n of
                           None \<Rightarrow> Inl (DbError ''no such table'')
                         | Some e \<Rightarrow> run_select (snd e) (split_on CHR '','' sel) conds params))))
      | _ \<Rightarrow> Inl unmodelled)"

subsection \<open>INSERT\<close>

definition next_id :: "nat \<Rightarrow> pyval list list \<Rightarrow> int" where
  "next_id i rows = foldr (\<lambda>r m. case r ! i of PInt k \<Rightarrow> max k m | _ \<Rightarrow> m) rows 0 + 1"

text \<open>A column that is the row id of its table: the only primary-key column, of type
  \<open>INTEGER\<close>. A \<open>NULL\<close> stored there becomes the next row id.\<close>

definition is_rowid :: "sq_col list \<Rightarrow> sq_col \<Rightarrow> bool" where
  "is_rowid cds cd = (c_pk cd \<and> c_type cd = ''INTEGER'' \<and> length (filter c_pk cds) = 1)"

text \<open>Whether a bound value is stored unchanged in a column.\<close>

fun stored_as_is :: "sq_col \<Rightarrow> pyval \<Rightarrow> bool" where
  "stored_as_is cd PNone = True"
| "stored_as_is cd (PInt i) = (c_type cd = ''INTEGER'')"
| "stored_as_is cd (PStr s) = (c_type cd = ''TEXT'')"
| "stored_as_is cd v = False"

text \<open>The new row of an \<open>INSERT\<close>, or \<open>None\<close> when a value would be converted: a
  \<open>?\<close> item takes the next parameter, a \<open>NULL\<close> item is \<open>NULL\<close>, or the next row id.\<close>

fun fill_row :: "sq_col list \<Rightarrow> sq_col list \<Rightarrow> string list \<Rightarrow> pyval list \<Rightarrow> nat
    \<Rightarrow> pyval list list \<Rightarrow> pyval list option" where
  "fill_row all (cd # cds) (it # its) ps i rows =
     (if it = ''?'' then
        (case ps of
           [] \<Rightarrow> None
         | p # ps' \<Rightarrow>
            (if \<not> stored_as_is cd p \<or> (p = PNone \<and> c_pk cd) then None
             else map_option ((#) p) (fill_row all cds its ps' (Suc i) rows)))
      else map_option ((#) (if is_rowid all cd then PInt (next_id i rows) else PNone))
             (fill_row all cds its ps (Suc i) rows))"
| "fill_row all [] [] ps i rows = Some []"
| "fill_row all cds its ps i rows = None"

definition set_table :: "string \<times> string \<Rightarrow> sq_table \<Rightarrow> sq_store \<Rightarrow> sq_store" where
  "set_table k tb s = map (\<lambda>e. if fst e = k then (k, tb) else e) s"

definition sq_insert :: "string \<Rightarrow> string \<Rightarrow> pyval \<Rightarrow> sq_store \<Rightarrow> (drv_error + pyval list list) \<times> sq_store" where
  "sq_insert d q params s =
     (case split_on CHR '' '' q of
        kw1 # kw2 # n # kw3 # itemws \<Rightarrow>
          (if kw1 \<noteq> ''INSERT'' \<or> kw2 \<noteq> ''INTO'' \<or> kw3 \<noteq> ''VALUES'' then (Inl unmodelled, s)
           else (case Option.bind (strip_prefix ''('' (join '' '' itemws)) (strip_suffix '')'') of
                   None \<Rightarrow> (Inl unmodelled, s)
                 | Some body \<Rightarrow>
                    (let items = map (dropWhile (\<lambda>c. c = CHR '' '')) (split_on CHR '','' body) in
                     if \<not> list_all (\<lambda>it. it = ''?'' \<or> it = ''NULL'') items then (Inl unmodelled, s)
                     else (case check_names [n] of
                             Some e \<Rightarrow> (Inl e, s)
                           | None \<Rightarrow>
                     (case find_table s d n of
                        None \<Rightarrow> (Inl (DbError ''no such table''), s)
                      | Some e \<Rightarrow>
                         (if \<not> well_formed (snd e) then (Inl unmodelled, s)
                          else if length items \<noteq> length (fst (snd e))
                          then (Inl (DbError ''wrong number of values supplied''), s)
                          else (case bind_params (length (filter (\<lambda>it. it = ''?'') items)) params of
                                  Inl err \<Rightarrow> (Inl err, s)
                                | Inr ps \<Rightarrow>
                                   (case fill_row (fst (snd e)) (fst (snd e)) items ps 0 (snd (snd e)) of
                                      None \<Rightarrow> (Inl unmodelled, s)
                                    | Some row \<Rightarrow>
                                       (Inr [],
                                        set_table (fst e) (fst (snd e), snd (snd e) @ [row]) s)))))))))
      | _ \<Rightarrow> (Inl unmodelled, s))"

subsection \<open>PRAGMA table_info, CREATE TABLE, DROP TABLE\<close>

text \<open>One row per column: position, name, declared type, not-null flag, default and
  the rank of the column in the primary key (0 when it is not part of it).\<close>

definition sq_pragma :: "string \<Rightarrow> string \<Rightarrow> sq_store \<Rightarrow> pyval list list" where
  "sq_pragma d n s =
     (case find_table s d n of
        None \<Rightarrow> []
      | Some e \<Rightarrow>
          map (\<lambda>i. [PInt (int i), PStr (c_name (fst (snd e) ! i)), PStr (c_type (fst (snd e) ! i)),
                    PInt 0,
                    (case c_default (fst (snd e) ! i) of None \<Rightarrow> PNone | Some dv \<Rightarrow> PStr dv),
                    PInt (if c_pk (fst (snd e) ! i)
                          then int (length (filter c_pk (take (Suc i) (fst (snd e))))) else 0)])
              [0 ..< length (fst (snd e))])"

text \<open>A column definition of \<open>CREATE TABLE\<close>: a name, a type and optionally the
  primary-key designation. The word \<open>NULL\<close> in the place of the type is a constraint,
  and the column has no declared type.\<close>

definition parse_coldef :: "string \<Rightarrow> sq_col option" where
  "parse_coldef cdef =
     (case split_on CHR '' '' (dropWhile (\<lambda>c. c = CHR '' '') cdef) of
        [c, ty] \<Rightarrow>
          (if ty \<in> set [''INTEGER'', ''REAL'', ''TEXT'', ''BLOB'']
           then Some \<lparr>c_name = c, c_type = ty, c_pk = False, c_default = None\<rparr>
           else if ty = ''NULL''
           then Some \<lparr>c_name = c, c_type = [], c_pk = False, c_default = None\<rparr>
           else None)
      | [c, ty, k1, k2, k3] \<Rightarrow>
          (if ty = ''INTEGER'' \<and> k1 = ''PRIMARY'' \<and> k2 = ''KEY'' \<and> k3 = ''AUTOINCREMENT''
           then Some \<lparr>c_name = c, c_type = ty, c_pk = True, c_default = None\<rparr>
           else None)
      | _ \<Rightarrow> None)"

definition sq_create :: "string \<Rightarrow> string \<Rightarrow> sq_store \<Rightarrow> (drv_error + pyval list list) \<times> sq_store" where
  "sq_create d rest s =
     (case split_on CHR ''('' rest of
        [n, defs] \<Rightarrow>
          (case strip_suffix '')'' defs of
             None \<Rightarrow> (Inl unmodelled, s)
           | Some body \<Rightarrow>
              (let cds = map parse_coldef (split_on CHR '','' body) in
               if \<not> list_all (\<lambda>c. c \<noteq> None) cds then (Inl unmodelled, s)
               else (case check_names (n # map (\<lambda>c. c_name (the c)) cds) of
                       Some e \<Rightarrow> (Inl e, s)
                     | None \<Rightarrow>
                        (if find_table s d n \<noteq> None then (Inl (DbError ''table already exists''), s)
                         else if \<not> distinct (map (\<lambda>c. upper (c_name (the c))) cds)
                         then (Inl (DbError ''duplicate column name''), s)
                         else if length (filter (\<lambda>c. c_pk (the c)) cds) > 1
                         then (Inl (DbError ''table has more than one primary key''), s)
                         else (Inr [], s @ [((d, n), (map the cds, []))])))))
      | _ \<Rightarrow> (Inl unmodelled, s))"

definition sq_drop :: "string \<Rightarrow> string \<Rightarrow> sq_store \<Rightarrow> (drv_error + pyval list list) \<times> sq_store" where
  "sq_drop d n s =
     (case check_names [n] of
        Some e \<Rightarrow> (Inl e, s)
      | None \<Rightarrow>
         (case find_table s d n of
            None \<Rightarrow> (Inl (DbError ''no such table''), s)
          | Some e \<Rightarrow> (Inr [], filter (\<lambda>e'. fst e' \<noteq> fst e) s)))"

definition sqlite :: "sq_store driver" where
  "sqlite d q params s =
     (case strip_prefix ''SELECT '' q of
        Some r \<Rightarrow> (sq_select d q params s, s)
      | None \<Rightarrow>
     (case strip_prefix ''INSERT '' q of
        Some r \<Rightarrow> sq_insert d q params s
      | None \<Rightarrow>
     (case strip_prefix (''PRAGMA table_info('' @ [CHR 0x27]) q of
        Some r \<Rightarrow>
          (case strip_suffix (CHR 0x27 # '')'') r of
             None \<Rightarrow> (Inl unmodelled, s)
           | Some n \<Rightarrow>
               (if CHR 0x27 \<in> set n \<or> params \<noteq> PTuple [] then (Inl unmodelled, s)
                else (Inr (sq_pragma d n s), s)))
      | None \<Rightarrow>
     (case strip_prefix ''DROP TABLE '' q of
        Some n \<Rightarrow> (if params \<noteq> PTuple [] then (Inl unmodelled, s) else sq_drop d n s)
      | None \<Rightarrow>
     (case strip_prefix ''CREATE TABLE '' q of
        Some r \<Rightarrow> (if params \<noteq> PTuple [] then (Inl unmodelled, s) else sq_create d r s)
      | None \<Rightarrow> (Inl unmodelled, s))))))"

section \<open>Predicates of the properties\<close>












section \<open>Example tables\<close>

text \<open>A store with a table \<open>t\<close> that has the integer primary key \<open>id\<close> and five rows,
  an empty table \<open>u\<close> without primary key, a table \<open>d\<close> without primary key whose two
  columns have default values, and a table named \<open>order\<close>; with the handles reflection
  builds for \<open>t\<close> and \<open>u\<close>, and the handle for \<open>order\<close>.\<close>

definition col :: "string \<Rightarrow> string \<Rightarrow> bool \<Rightarrow> string option \<Rightarrow> sq_col" where
  "col n ty k dv = \<lparr>c_name = n, c_type = ty, c_pk = k, c_default = dv\<rparr>"

definition ex_store :: sq_store where
  "ex_store =
     [((''f.db'', ''t''),
       ([col ''id'' ''INTEGER'' True None, col ''x'' ''INTEGER'' False None,
         col ''y'' ''TEXT'' False None],
        [[PInt 1, PInt 5, PNone], [PInt 2, PInt 6, PNone], [PInt 3, PNone, PStr ''q''],
         [PInt 4, PNone, PNone], [PInt 5, PNone, PNone]])),
      ((''f.db'', ''u''),
       ([col ''x'' ''INTEGER'' False None, col ''y'' ''TEXT'' False None], [])),
      ((''f.db'', ''d''),
       ([col ''a'' ''INTEGER'' False (Some ''0''), col ''b'' ''INTEGER'' False (Some ''1'')], [])),
      ((''f.db'', ''order''),
       ([col ''id'' ''INTEGER'' True None, col ''x'' ''INTEGER'' False None],
        [[PInt 1, PInt 5]]))]"

definition ex_world :: "sq_store world" where
  "ex_world = \<lparr>store = ex_store, log = []\<rparr>"

definition ex_t :: table where
  "ex_t = \<lparr>t_db = ''f.db'', t_name = ''t'',
          t_meta = [[PInt 0, PStr ''id'', PStr ''INTEGER'', PInt 0, PNone, PInt 1],
                    [PInt 1, PStr ''x'', PStr ''INTEGER'', PInt 0, PNone, PInt 0],
                    [PInt 2, PStr ''y'', PStr ''TEXT'', PInt 0, PNone, PInt 0]],
          t_columns = [PStr ''id'', PStr ''x'', PStr ''y''], t_pk = PStr ''id'',
          t_repr = ''t(id INTEGER PRIMARY KEY AUTOINCREMENT, x INTEGER, y TEXT)''\<rparr>"

definition ex_u :: table where
  "ex_u = \<lparr>t_db = ''f.db'', t_name = ''u'',
          t_meta = [[PInt 0, PStr ''x'', PStr ''INTEGER'', PInt 0, PNone, PInt 0],
                    [PInt 1, PStr ''y'', PStr ''TEXT'', PInt 0, PNone, PInt 0]],
          t_columns = [PStr ''x'', PStr ''y''], t_pk = PNone,
          t_repr = ''u(x INTEGER, y TEXT)''\<rparr>"


section \<open>Errors of the connection scope\<close>

lemma raised_kind: "(\<exists>m. raised x = StorageError m) \<or> (\<exists>m. raised x = OverflowError m)"
  by (cases x) auto

lemma run_stmts_error:
  "fst (run_stmts drv d stmts s evs res) = Inl e \<Longrightarrow>
   (\<exists>m. e = StorageError m) \<or> (\<exists>m. e = OverflowError m)"
  by (induction stmts arbitrary: s evs res) (use raised_kind in \<open>auto split: prod.splits sum.splits\<close>)

lemma with_conn_error:
  "with_conn drv d stmts w = (Inl e, w') \<Longrightarrow>
   (\<exists>m. e = StorageError m) \<or> (\<exists>m. e = OverflowError m)"
  unfolding with_conn_def using run_stmts_error [of drv d stmts "store w" "log w @ [Connect d]" "[]" e]
  by (auto split: prod.splits sum.splits)

lemma select_error:
  "fst (select drv t c wh w) = Inl e \<Longrightarrow>
   (\<exists>m. e = StorageError m) \<or> (\<exists>m. e = OverflowError m) \<or> (\<exists>m. e = TypeError m)"
  unfolding select_def Let_def str_join_def
  by (auto split: prod.splits sum.splits if_splits dest: with_conn_error)

section \<open>Reflection\<close>

text \<open>
  C10: when the reflection query answers no rows (as it does for a table that does
  not exist), construction fails with an \<open>IndexError\<close> raised by the column access
  into the empty metadata array; it is not a storage error and no handle is returned.
\<close>

theorem construct_no_rows:
  "fst (drv d (pragma_sql n) (PTuple []) (store w)) = Inr [] \<Longrightarrow>
   fst (construct drv d n w) = Inl (IndexError ''too many indices for array'')"
  by (auto simp: construct_def with_conn_def init_meta_def np_array_def np_is_string_def np_col_def
                np_2d_def split: prod.splits sum.splits)

theorem construct_no_rows_witness:
  "fst (sqlite ''f.db'' (pragma_sql ''nope'') (PTuple []) (store \<lparr>store = [], log = []\<rparr>)) = Inr []
   \<and> fst (construct sqlite ''f.db'' ''nope'' \<lparr>store = [], log = []\<rparr>)
       = Inl (IndexError ''too many indices for array'')"
proof -
  have h: "fst (sqlite ''f.db'' (pragma_sql ''nope'') (PTuple []) (store \<lparr>store = [], log = []\<rparr>)) = Inr []"
    by (simp add: sqlite_def pragma_sql_def quote_def strip_suffix_def sq_pragma_def find_table_def)
  show ?thesis
    using h construct_no_rows [of sqlite "''f.db''" "''nope''" "\<lparr>store = [], log = []\<rparr>"] by simp
qed

section \<open>Column selection\<close>

text \<open>
  C2, on a table without primary key: line 143 tests \<open>self.pk not in cols\<close> without
  asking whether there is a primary key, so \<open>None\<close> is put in front of the column list
  (or is already in it) and \<open>",".join(cols)\<close> raises \<open>TypeError\<close>. Every \<open>select\<close> on
  such a table fails before a connection is opened.
\<close>

theorem select_without_pk:
  "t_pk t = PNone \<Longrightarrow>
   select drv t cols wh w = (Inl (TypeError ''sequence item: expected string''), w)"
proof -
  assume h: "t_pk t = PNone"
  have "PNone \<in> set (select_cols t cols)" using h by (auto simp: select_cols_def Let_def)
  then have "\<not> list_all is_str (select_cols t cols)"
    unfolding list_all_iff by (rule_tac notI, drule_tac x = PNone in bspec, simp_all)
  then show ?thesis by (simp add: select_def Let_def str_join_def)
qed

theorem select_without_pk_witness:
  "t_pk ex_u = PNone \<and>
   select sqlite ex_u (PList [PStr ''x'']) None ex_world
     = (Inl (TypeError ''sequence item: expected string''), ex_world)"
proof -
  have h: "t_pk ex_u = PNone" by (simp add: ex_u_def)
  show ?thesis using h select_without_pk [OF h, of sqlite "PList [PStr ''x'']" None ex_world] by simp
qed

section \<open>Indexing\<close>

text \<open>
  C9: the empty list is dispatched as a multi-column selection: \<open>handle[[]]\<close> is
  \<open>select([])\<close>, and whatever that does, it is never the \<open>ValueError\<close> of an invalid
  key.
\<close>

theorem getitem_empty_list:
  "getitem drv t (PList []) w = select drv t (PList []) None w
   \<and> (\<forall>m. fst (getitem drv t (PList []) w) \<noteq> Inl (ValueError m))"
proof -
  have a: "getitem drv t (PList []) w = select drv t (PList []) None w"
    by (simp add: getitem_def)
  have "\<And>m. fst (select drv t (PList []) None w) \<noteq> Inl (ValueError m)"
    using select_error [of drv t "PList []" None w] by auto
  with a show ?thesis by simp
qed

text \<open>
  C7, at the key \<open>None\<close>: it is no integer, no slice and no string, and line 205
  iterates over it, which raises \<open>TypeError\<close>; the \<open>ValueError\<close> of line 210 is not
  reached.
\<close>

theorem getitem_none_key:
  "getitem drv t PNone w
     = (Inl (TypeError (py_type_str PNone @ '' object is not iterable'')), w)"
  by (simp add: getitem_def)

section \<open>Insertion\<close>

text \<open>
  C6, at the empty sequence: line 92 reads \<open>values[0]\<close> before any count is compared,
  so \<open>insert([])\<close> raises \<open>IndexError\<close> and not the \<open>ValueError\<close> with the expected
  and the actual count. Nothing is sent to the store.
\<close>

theorem insert_empty_sequence:
  "insert drv t (PList []) w = (Inl (IndexError ''index out of range''), w)"
  by (simp add: insert_def insert_plan_def normalize_values_def)

section \<open>Validation in create\<close>








section \<open>Positional rows\<close>

text \<open>
  C1, at a positional row for the two non-key columns of \<open>t\<close>: line 111 binds the row
  as a single list-valued parameter, so the statement with two placeholders receives
  one binding, the store rejects it and no row is added.
\<close>

theorem insert_positional_row:
  "insert sqlite ex_t (PList [PInt 7, PStr ''a'']) ex_world
     = (Inl (StorageError ''Incorrect number of bindings supplied''),
        \<lparr>store = ex_store,
         log = [Connect ''f.db'',
                Execute ''INSERT INTO t VALUES (NULL, ?, ?)'' (PList [PList [PInt 7, PStr ''a'']]),
                Rollback]\<rparr>)"
  by code_simp

section \<open>Primary key of the reflected schema\<close>

text \<open>
  C4, at a table without primary key whose two columns both have a default value: no
  cell of the reflected rows is \<open>None\<close>, so \<open>np.array\<close> builds an array of strings,
  the primary-key cells are the strings \<open>'0'\<close>, all of them non-zero for
  \<open>np.nonzero\<close>, and line 25 raises "more than one primary key" for a table that has
  none.
\<close>

theorem construct_default_columns:
  "fst (construct sqlite ''f.db'' ''d'' ex_world)
     = Inl (ValueError ''more than one primary key: [0 1]'')"
  by code_simp

section \<open>Slices\<close>







section \<open>Connection scopes\<close>






















end
